theory Spec2Isabelle
  imports
    Complex_Main
    "HOL-Library.Char_ord"
    "HOL-Library.List_Lexorder"
    "HOL-Library.Multiset"
begin

section \<open>Trading journal: the trade listing and aggregation view\<close>

text \<open>
  A shallow embedding of \<^verbatim>\<open>trade_list\<close> in \<^verbatim>\<open>journal/views.py\<close>. The view
  reads the trades of the requesting user, orders them as the query string asks, and
  computes the summary statistics that the template shows.
\<close>

subsection \<open>Data model\<close>

text \<open>
  Python's \<^verbatim>\<open>Decimal\<close> values are modelled as rationals: sums and products are
  exact, as they are for stored decimal columns within the precision of the decimal
  context. A Python \<^verbatim>\<open>float\<close> is modelled by the rational that the double denotes,
  and every float operation rounds its exact result to the nearest double.
\<close>

type_synonym decimal = rat

text \<open>
  Modelled from the spec: the \<^verbatim>\<open>Trade\<close> model of \<^verbatim>\<open>journal/models.py\<close>, with the
  fields the view reads. \<^verbatim>\<open>status\<close> is the string the view compares with
  \<^verbatim>\<open>'CLOSED'\<close>; \<^verbatim>\<open>pnl\<close> is nullable; \<^verbatim>\<open>entry_date\<close> is a point in time,
  counted in whole units from an epoch. \<^verbatim>\<open>user_id\<close> is the owner.
\<close>

record trade =
  pk :: nat
  user_id :: nat
  symbol :: string
  entry_date :: int
  status :: string
  entry_price :: decimal
  quantity :: decimal
  pnl :: "decimal option"

text \<open>
  Modelled from the spec: the optional one-to-one \<^verbatim>\<open>Portfolio\<close> of a user, holding
  \<^verbatim>\<open>current_balance\<close>.
\<close>

record portfolio =
  portfolio_user_id :: nat
  current_balance :: decimal

text \<open>
  Modelled from the spec: the \<^verbatim>\<open>Strategy\<close> and \<^verbatim>\<open>TradeImage\<close> models, which the
  view never reads; they are part of the persisted state.
\<close>

record strategy =
  strategy_user_id :: nat
  strategy_name :: string

record trade_image =
  image_trade_pk :: nat
  caption :: string
  created_at :: int

text \<open>The persisted state: the rows of the four tables.\<close>

record db =
  trade_rows :: "trade list"
  strategy_rows :: "strategy list"
  image_rows :: "trade_image list"
  portfolio_rows :: "portfolio list"

record user =
  uid :: nat

text \<open>
  The request: the authenticated user and the query string, a dictionary of strings.
\<close>

record request =
  req_user :: user
  GET :: "string \<rightharpoonup> string"

datatype error = FieldError string | RelatedObjectDoesNotExist

subsection \<open>The collaborators: query string, ORM, builtins\<close>

text \<open>\<^verbatim>\<open>request.GET.get(key, default)\<close>.\<close>

definition GET_get :: "request \<Rightarrow> string \<Rightarrow> string \<Rightarrow> string" where
  "GET_get request key dflt = (case GET request key of None \<Rightarrow> dflt | Some v \<Rightarrow> v)"

text \<open>
  \<^verbatim>\<open>Trade.objects.filter(user=request.user)\<close>: the rows owned by the user. The
  query set is evaluated once and its rows are cached, so every later loop of the view
  runs over the same list; the model is eager.
\<close>

definition objects_filter :: "user \<Rightarrow> db \<Rightarrow> trade list" where
  "objects_filter u d = filter (\<lambda>t. user_id t = uid u) (trade_rows d)"

text \<open>
  \<^verbatim>\<open>order_by(name)\<close>: ascending on the named field, descending when the name
  starts with a minus sign, \<^verbatim>\<open>FieldError\<close> for a name that is no field. Only the
  fields that the view can name are resolved. The order of rows with equal keys is left
  to the database; the model takes a stable sort, and the theorems about the order state
  only what every ordering by that key satisfies.
\<close>

definition field_sort :: "string \<Rightarrow> (trade list \<Rightarrow> trade list) option" where
  "field_sort name =
     (if name = ''symbol'' then Some (sort_key symbol)
      else if name = ''status'' then Some (sort_key status)
      else if name = ''entry_date'' then Some (sort_key entry_date)
      else None)"

definition order_by :: "string \<Rightarrow> trade list \<Rightarrow> error + trade list" where
  "order_by name rows =
     (if name \<noteq> [] \<and> hd name = CHR ''-''
      then (case field_sort (tl name) of
              None \<Rightarrow> Inl (FieldError (tl name))
            | Some srt \<Rightarrow> Inr (rev (srt rows)))
      else (case field_sort name of
              None \<Rightarrow> Inl (FieldError name)
            | Some srt \<Rightarrow> Inr (srt rows)))"

text \<open>\<^verbatim>\<open>sum(iterable)\<close>: a left-to-right accumulation that starts at 0.\<close>

definition py_sum :: "decimal list \<Rightarrow> decimal" where
  "py_sum xs = foldl (+) 0 xs"

text \<open>
  \<^verbatim>\<open>max(iterable, key=key, default=None)\<close>: the running maximum is replaced only by
  an item whose key is strictly greater, so the first maximum is returned.
\<close>

fun py_max_loop :: "('a \<Rightarrow> decimal) \<Rightarrow> 'a \<Rightarrow> 'a list \<Rightarrow> 'a" where
  "py_max_loop key best [] = best"
| "py_max_loop key best (x # xs) =
     (if key x > key best then py_max_loop key x xs else py_max_loop key best xs)"

definition py_max :: "('a \<Rightarrow> decimal) \<Rightarrow> 'a list \<Rightarrow> 'a option" where
  "py_max key xs = (case xs of [] \<Rightarrow> None | x # rest \<Rightarrow> Some (py_max_loop key x rest))"

text \<open>
  Python's \<^verbatim>\<open>float\<close> is the IEEE 754 binary64 format: 53 significant bits, least
  exponent \<open>-1022\<close>, rounding to the nearest value and on a tie to the one with an even
  significand. Rounding to the nearest integer, ties to even:
\<close>

definition round_half_even :: "rat \<Rightarrow> int" where
  "round_half_even x =
     (let n = \<lfloor>x\<rfloor>; r = x - of_int n
      in if r < 1 / 2 then n else if 1 / 2 < r then n + 1 else if even n then n else n + 1)"

text \<open>The integer binary logarithm of \<open>n \<ge> 1\<close>, rounded down, by halving.\<close>

function ilog2 :: "int \<Rightarrow> int" where
  "ilog2 n = (if n < 2 then 0 else 1 + ilog2 (n div 2))"
  by pat_completeness auto
termination
  by (relation "measure nat") auto

declare ilog2.simps [simp del]

text \<open>
  The binade of a positive rational \<open>x\<close>: the exponent \<open>e\<close> with
  \<open>2 powi e \<le> x < 2 powi (e + 1)\<close>. The difference of the logarithms of numerator
  and denominator is \<open>e\<close> or \<open>e + 1\<close>.
\<close>

definition binade :: "rat \<Rightarrow> int" where
  "binade x =
     (case quotient_of x of (a, b) \<Rightarrow>
        let k = ilog2 a - ilog2 b
        in if 2 powi k \<le> x then k else k - 1)"

text \<open>
  The double nearest to \<open>x\<close>: \<open>x\<close> is rounded to a multiple of the unit in the last
  place of its binade, \<open>2 powi (e - 52)\<close>, where the exponent is not taken below
  \<open>-1022\<close> (the subnormal range). Overflow beyond the largest double is left out: the
  view rounds no value above 100.
\<close>

definition float_round :: "rat \<Rightarrow> rat" where
  "float_round x =
     (if x = 0 then 0
      else let e = max (binade \<bar>x\<bar>) (- 1022); ulp = 2 powi (e - 52)
           in of_int (round_half_even (x / ulp)) * ulp)"

text \<open>
  \<^verbatim>\<open>a / b\<close> on two \<^verbatim>\<open>int\<close>s with \<^verbatim>\<open>b\<close> not zero: true division returns the
  double nearest to the exact quotient. The view divides behind a guard only.
\<close>

definition int_truediv :: "nat \<Rightarrow> nat \<Rightarrow> rat" where
  "int_truediv a b = float_round (of_nat a / of_nat b)"

text \<open>\<^verbatim>\<open>x * y\<close> on floats; an \<^verbatim>\<open>int\<close> operand such as 100 converts exactly.\<close>

definition float_mul :: "rat \<Rightarrow> rat \<Rightarrow> rat" where
  "float_mul x y = float_round (x * y)"

text \<open>
  \<^verbatim>\<open>request.user.portfolio\<close>: the reverse one-to-one accessor looks the row up and
  raises \<^verbatim>\<open>RelatedObjectDoesNotExist\<close>, an \<^verbatim>\<open>AttributeError\<close>, when there is
  none; \<^verbatim>\<open>hasattr\<close> turns that exception into \<^verbatim>\<open>False\<close>.
\<close>

definition user_portfolio :: "user \<Rightarrow> db \<Rightarrow> error + portfolio" where
  "user_portfolio u d =
     (case find (\<lambda>p. portfolio_user_id p = uid u) (portfolio_rows d) of
        None \<Rightarrow> Inl RelatedObjectDoesNotExist
      | Some p \<Rightarrow> Inr p)"

definition hasattr_portfolio :: "user \<Rightarrow> db \<Rightarrow> bool" where
  "hasattr_portfolio u d = (case user_portfolio u d of Inl _ \<Rightarrow> False | Inr _ \<Rightarrow> True)"

subsection \<open>The statistics of the view\<close>

text \<open>\<^verbatim>\<open>sum(trade.pnl for trade in trades if trade.pnl is not None)\<close>\<close>

definition total_pnl :: "trade list \<Rightarrow> decimal" where
  "total_pnl trades = py_sum (map (\<lambda>t. the (pnl t)) (filter (\<lambda>t. pnl t \<noteq> None) trades))"

text \<open>\<^verbatim>\<open>sum(trade.entry_price * trade.quantity for trade in trades)\<close>\<close>

definition total_investment :: "trade list \<Rightarrow> decimal" where
  "total_investment trades = py_sum (map (\<lambda>t. entry_price t * quantity t) trades)"

text \<open>\<^verbatim>\<open>[trade for trade in trades if trade.status == 'CLOSED']\<close>\<close>

definition closed_trades :: "trade list \<Rightarrow> trade list" where
  "closed_trades trades = filter (\<lambda>t. status t = ''CLOSED'') trades"

text \<open>
  \<^verbatim>\<open>trade.pnl and trade.pnl > 0\<close>: \<^verbatim>\<open>None\<close> and a zero decimal are falsy, and the
  comparison is reached only for a truthy \<^verbatim>\<open>pnl\<close>.
\<close>

definition is_winning :: "trade \<Rightarrow> bool" where
  "is_winning t = (case pnl t of None \<Rightarrow> False | Some p \<Rightarrow> p \<noteq> 0 \<and> p > 0)"

definition winning_trades :: "trade list \<Rightarrow> trade list" where
  "winning_trades trades = filter is_winning (closed_trades trades)"

text \<open>
  \<^verbatim>\<open>(len(winning_trades) / len(closed_trades) * 100) if closed_trades else 0\<close>:
  a true division of two \<^verbatim>\<open>int\<close>s and a float product, or the \<^verbatim>\<open>int\<close> 0. The
  result is the rational that the float denotes.
\<close>

definition win_rate :: "trade list \<Rightarrow> rat" where
  "win_rate trades =
     (if closed_trades trades \<noteq> []
      then float_mul
             (int_truediv (length (winning_trades trades)) (length (closed_trades trades))) 100
      else 0)"

text \<open>
  \<^verbatim>\<open>max((trade for trade in closed_trades if trade.pnl is not None),
  key=lambda t: t.pnl, default=None)\<close>
\<close>

definition best_performer :: "trade list \<Rightarrow> trade option" where
  "best_performer trades =
     py_max (\<lambda>t. the (pnl t)) (filter (\<lambda>t. pnl t \<noteq> None) (closed_trades trades))"

text \<open>
  \<^verbatim>\<open>portfolio = request.user.portfolio if hasattr(request.user, 'portfolio') else None\<close>
  and \<^verbatim>\<open>net_worth = portfolio.current_balance if portfolio else 0\<close>. A model
  instance is truthy.
\<close>

definition get_portfolio :: "user \<Rightarrow> db \<Rightarrow> portfolio option" where
  "get_portfolio u d =
     (if hasattr_portfolio u d
      then (case user_portfolio u d of Inl _ \<Rightarrow> None | Inr p \<Rightarrow> Some p)
      else None)"

definition net_worth :: "user \<Rightarrow> db \<Rightarrow> decimal" where
  "net_worth u d = (case get_portfolio u d of Some p \<Rightarrow> current_balance p | None \<Rightarrow> 0)"

subsection \<open>The view\<close>

record template_context =
  ctx_trades :: "trade list"
  ctx_current_sort :: string
  ctx_current_order :: string
  ctx_total_pnl :: decimal
  ctx_net_worth :: decimal
  ctx_win_rate :: rat
  ctx_best_performer :: "trade option"
  ctx_total_investment :: decimal

datatype response = Rendered string template_context

definition render :: "request \<Rightarrow> string \<Rightarrow> template_context \<Rightarrow> response" where
  "render request template ctx = Rendered template ctx"

text \<open>The field that the view sorts by, lines 18 to 23.\<close>

definition sort_field_of :: "string \<Rightarrow> string" where
  "sort_field_of sort_by =
     (if sort_by = ''symbol'' then ''symbol''
      else if sort_by = ''status'' then ''status''
      else ''-entry_date'')"

text \<open>The ordering that the view applies, lines 26 to 32.\<close>

definition apply_sort :: "string \<Rightarrow> string \<Rightarrow> trade list \<Rightarrow> error + trade list" where
  "apply_sort sort_by order trades =
     (let sort_field = sort_field_of sort_by in
      if sort_by \<in> set [''symbol'', ''status'']
      then (if order = ''asc''
            then order_by sort_field trades
            else order_by (CHR ''-'' # sort_field) trades)
      else order_by sort_field trades)"

text \<open>
  The view takes the request and the persisted state and returns its result together
  with the persisted state after it. An exception of the body is the \<open>Inl\<close> result.
\<close>

definition trade_list :: "request \<Rightarrow> db \<Rightarrow> (error + response) \<times> db" where
  "trade_list request d =
     (let trades = objects_filter (req_user request) d;
          sort_by = GET_get request ''sort_by'' ''entry_date'';
          order = GET_get request ''order'' ''desc''
      in case apply_sort sort_by order trades of
           Inl e \<Rightarrow> (Inl e, d)
         | Inr trades \<Rightarrow>
             (Inr (render request ''journal/trade_list.html''
                \<lparr> ctx_trades = trades,
                  ctx_current_sort = sort_by,
                  ctx_current_order = order,
                  ctx_total_pnl = total_pnl trades,
                  ctx_net_worth = net_worth (req_user request) d,
                  ctx_win_rate = win_rate trades,
                  ctx_best_performer = best_performer trades,
                  ctx_total_investment = total_investment trades \<rparr>), d))"

subsection \<open>The statistics as the specification words them\<close>

text \<open>
  The total profit and loss in the words of the specification: the sum of \<^verbatim>\<open>pnl\<close> over
  all trades whose \<^verbatim>\<open>pnl\<close> is not null, whatever their status.
\<close>

primrec spec_total_pnl :: "trade list \<Rightarrow> decimal" where
  "spec_total_pnl [] = 0"
| "spec_total_pnl (t # ts) =
     (case pnl t of None \<Rightarrow> spec_total_pnl ts | Some p \<Rightarrow> p + spec_total_pnl ts)"

text \<open>
  The sort resolution in the words of the specification: the field is \<^verbatim>\<open>symbol\<close> or
  \<^verbatim>\<open>status\<close> when \<^verbatim>\<open>sort_by\<close> names it, ascending exactly when \<^verbatim>\<open>order\<close> is
  \<^verbatim>\<open>asc\<close>; any other \<^verbatim>\<open>sort_by\<close> gives \<^verbatim>\<open>entry_date\<close> descending, whatever
  \<^verbatim>\<open>order\<close> is.
\<close>

definition spec_sort_resolution :: "string \<Rightarrow> string \<Rightarrow> trade list \<Rightarrow> trade list" where
  "spec_sort_resolution sort_by order ts =
     (if sort_by = ''symbol''
      then (if order = ''asc'' then sort_key symbol ts else rev (sort_key symbol ts))
      else if sort_by = ''status''
      then (if order = ''asc'' then sort_key status ts else rev (sort_key status ts))
      else rev (sort_key entry_date ts))"

section \<open>Properties\<close>

subsection \<open>The builtins\<close>

lemma py_max_loop_mem: "py_max_loop key b xs \<in> set (b # xs)"
  by (induction xs arbitrary: b) auto

lemma py_max_loop_ge_all: "\<forall>x\<in>set (b # xs). key x \<le> key (py_max_loop key b xs)"
proof (induction xs arbitrary: b)
  case Nil
  then show ?case by simp
next
  case (Cons y ys)
  show ?case
  proof (cases "key y > key b")
    case True
    have ih: "\<forall>x\<in>set (y # ys). key x \<le> key (py_max_loop key y ys)" by (rule Cons.IH)
    then have "key y \<le> key (py_max_loop key y ys)" by simp
    then have "key b \<le> key (py_max_loop key y ys)" using True by simp
    then show ?thesis using True ih by simp
  next
    case False
    have ih: "\<forall>x\<in>set (b # ys). key x \<le> key (py_max_loop key b ys)" by (rule Cons.IH)
    then have "key b \<le> key (py_max_loop key b ys)" by simp
    then have "key y \<le> key (py_max_loop key b ys)" using False by simp
    then show ?thesis using False ih by simp
  qed
qed

lemma py_max_loop_ge: "x \<in> set (b # xs) \<Longrightarrow> key x \<le> key (py_max_loop key b xs)"
  by (rule py_max_loop_ge_all[rule_format])

lemma py_max_loop_first:
  "\<exists>pre post. b # xs = pre @ py_max_loop key b xs # post \<and>
     (\<forall>x\<in>set pre. key x < key (py_max_loop key b xs))"
proof (induction xs arbitrary: b)
  case Nil
  have "[b] = [] @ b # [] \<and> (\<forall>x\<in>set []. key x < key b)" by simp
  then show ?case unfolding py_max_loop.simps by blast
next
  case (Cons y ys)
  show ?case
  proof (cases "key y > key b")
    case True
    obtain pre post where pp: "y # ys = pre @ py_max_loop key y ys # post"
      "\<forall>x\<in>set pre. key x < key (py_max_loop key y ys)"
      using Cons.IH[of y] by blast
    have "key y \<le> key (py_max_loop key y ys)" by (rule py_max_loop_ge) simp
    then have "key b < key (py_max_loop key y ys)" using True by simp
    then have "b # y # ys = (b # pre) @ py_max_loop key y ys # post \<and>
      (\<forall>x\<in>set (b # pre). key x < key (py_max_loop key y ys))"
      using pp by simp
    then have "\<exists>pre post. b # y # ys = pre @ py_max_loop key y ys # post \<and>
        (\<forall>x\<in>set pre. key x < key (py_max_loop key y ys))" by blast
    then show ?thesis using True by simp
  next
    case False
    obtain pre post where pp: "b # ys = pre @ py_max_loop key b ys # post"
      "\<forall>x\<in>set pre. key x < key (py_max_loop key b ys)"
      using Cons.IH[of b] by blast
    show ?thesis
    proof (cases pre)
      case Nil
      have "b # ys = py_max_loop key b ys # post" using pp(1) unfolding Nil append_Nil .
      then have m: "py_max_loop key b ys = b" by (rule list.inject[THEN iffD1, THEN conjunct1, symmetric])
      have "b # y # ys = [] @ py_max_loop key b ys # (y # ys) \<and>
        (\<forall>x\<in>set []. key x < key (py_max_loop key b ys))" unfolding m by simp
      then have "\<exists>pre post. b # y # ys = pre @ py_max_loop key b ys # post \<and>
        (\<forall>x\<in>set pre. key x < key (py_max_loop key b ys))" by blast
      then show ?thesis using False by simp
    next
      case (Cons p pre')
      have "b # ys = p # (pre' @ py_max_loop key b ys # post)"
        using pp(1) unfolding Cons append_Cons .
      then have b: "p = b" and ys: "ys = pre' @ py_max_loop key b ys # post"
        by (rule list.inject[THEN iffD1, THEN conjunct1, symmetric],
            rule list.inject[THEN iffD1, THEN conjunct2])
      have "key b < key (py_max_loop key b ys)" using pp(2) Cons b by simp
      then have "key y < key (py_max_loop key b ys)" using False by simp
      then have "\<forall>x\<in>set (b # y # pre'). key x < key (py_max_loop key b ys)"
        using pp(2) Cons b by simp
      moreover have "b # y # ys = (b # y # pre') @ py_max_loop key b ys # post"
        using ys by simp
      ultimately have "\<exists>pre post. b # y # ys = pre @ py_max_loop key b ys # post \<and>
        (\<forall>x\<in>set pre. key x < key (py_max_loop key b ys))" by blast
      then show ?thesis using False by simp
    qed
  qed
qed

subsection \<open>Rounding to a double\<close>








lemma float_round_zero: "float_round 0 = 0"
  by (simp add: float_round_def)




subsection \<open>Sums and the win rate\<close>

lemma foldl_add_sum_list: "foldl (+) (a::rat) xs = a + sum_list xs"
  by (induction xs arbitrary: a) (simp_all add: add.assoc)

lemma py_sum_sum_list: "py_sum xs = sum_list xs"
  by (simp add: py_sum_def foldl_add_sum_list)

lemma total_pnl_spec: "total_pnl ts = spec_total_pnl ts"
  by (induction ts) (auto simp: total_pnl_def py_sum_sum_list)

lemma total_pnl_status: "total_pnl (map (\<lambda>t. t\<lparr>status := f t\<rparr>) ts) = total_pnl ts"
  by (induction ts) (simp_all add: total_pnl_spec split: option.splits)

lemma total_investment_sum_list:
  "total_investment ts = (\<Sum>t\<leftarrow>ts. entry_price t * quantity t)"
  by (simp add: total_investment_def py_sum_sum_list)

lemma total_investment_mset:
  "mset ts = mset ts' \<Longrightarrow> total_investment ts = total_investment ts'"
  unfolding total_investment_sum_list
proof -
  assume "mset ts = mset ts'"
  then have "mset (map (\<lambda>t. entry_price t * quantity t) ts) = mset (map (\<lambda>t. entry_price t * quantity t) ts')"
    by simp
  then show "(\<Sum>t\<leftarrow>ts. entry_price t * quantity t) = (\<Sum>t\<leftarrow>ts'. entry_price t * quantity t)"
    by (metis sum_mset_sum_list)
qed








lemma winning_trades_char:
  "winning_trades ts = filter (\<lambda>t. status t = ''CLOSED'' \<and> (\<exists>p. pnl t = Some p \<and> 0 < p)) ts"
  by (simp add: winning_trades_def closed_trades_def is_winning_def conj_commute split: option.splits) (rule filter_cong, auto split: option.splits)

subsection \<open>The ordering and the view as a whole\<close>

lemma order_by_asc:
  "order_by ''symbol'' ts = Inr (sort_key symbol ts)"
  "order_by ''status'' ts = Inr (sort_key status ts)"
  by (simp_all add: order_by_def field_sort_def)

lemma order_by_desc:
  "order_by ''-symbol'' ts = Inr (rev (sort_key symbol ts))"
  "order_by ''-status'' ts = Inr (rev (sort_key status ts))"
  "order_by ''-entry_date'' ts = Inr (rev (sort_key entry_date ts))"
  by (simp_all add: order_by_def field_sort_def)

lemma apply_sort_resolved:
  "apply_sort sort_by order ts = Inr (spec_sort_resolution sort_by order ts)"
  by (simp add: apply_sort_def sort_field_of_def spec_sort_resolution_def order_by_asc order_by_desc)

lemma mset_spec_sort_resolution: "mset (spec_sort_resolution sort_by order ts) = mset ts"
  by (simp add: spec_sort_resolution_def)

lemma trade_list_eq:
  "trade_list request d =
     (let trades = spec_sort_resolution (GET_get request ''sort_by'' ''entry_date'')
                     (GET_get request ''order'' ''desc'') (objects_filter (req_user request) d)
      in (Inr (Rendered ''journal/trade_list.html''
           \<lparr> ctx_trades = trades,
             ctx_current_sort = GET_get request ''sort_by'' ''entry_date'',
             ctx_current_order = GET_get request ''order'' ''desc'',
             ctx_total_pnl = total_pnl trades,
             ctx_net_worth = net_worth (req_user request) d,
             ctx_win_rate = win_rate trades,
             ctx_best_performer = best_performer trades,
             ctx_total_investment = total_investment trades \<rparr>), d))"
  by (simp add: trade_list_def apply_sort_resolved render_def Let_def)

subsection \<open>The best performer\<close>

lemma filter_eq_appendD:
  "filter P ys = xs1 @ x # xs2 \<Longrightarrow>
   \<exists>us vs. ys = us @ x # vs \<and> filter P us = xs1 \<and> filter P vs = xs2"
proof (induction xs1 arbitrary: ys)
  case Nil
  then have "filter P ys = x # xs2" by simp
  then obtain us vs where "ys = us @ x # vs" "\<forall>u\<in>set us. \<not> P u" "xs2 = filter P vs"
    using filter_eq_ConsD[of P ys x xs2] by blast
  then have "ys = us @ x # vs \<and> filter P us = [] \<and> filter P vs = xs2" by simp
  then show ?case by blast
next
  case (Cons a xs1)
  then have "filter P ys = a # (xs1 @ x # xs2)" by simp
  then obtain us vs where uv: "ys = us @ a # vs" "\<forall>u\<in>set us. \<not> P u" "P a"
      "xs1 @ x # xs2 = filter P vs"
    using filter_eq_ConsD[of P ys a "xs1 @ x # xs2"] by blast
  obtain us' vs' where uv': "vs = us' @ x # vs'" "filter P us' = xs1" "filter P vs' = xs2"
    using Cons.IH[of vs, OF uv(4)[symmetric]] by blast
  have "ys = (us @ a # us') @ x # vs' \<and> filter P (us @ a # us') = a # xs1 \<and> filter P vs' = xs2"
    using uv uv' by simp
  then show ?case by blast
qed

lemma closed_non_null_filter:
  "filter (\<lambda>t. pnl t \<noteq> None) (closed_trades ts) = filter (\<lambda>t. status t = ''CLOSED'' \<and> pnl t \<noteq> None) ts"
  by (simp add: closed_trades_def conj_commute)

lemma best_performer_None:
  "best_performer ts = None \<longleftrightarrow> \<not> (\<exists>t\<in>set ts. status t = ''CLOSED'' \<and> pnl t \<noteq> None)"
proof -
  have "best_performer ts = None \<longleftrightarrow> filter (\<lambda>t. pnl t \<noteq> None) (closed_trades ts) = []"
    unfolding best_performer_def py_max_def
    by (cases "filter (\<lambda>t. pnl t \<noteq> None) (closed_trades ts)") simp_all
  also have "\<dots> \<longleftrightarrow> \<not> (\<exists>t\<in>set ts. status t = ''CLOSED'' \<and> pnl t \<noteq> None)"
    unfolding closed_non_null_filter filter_empty_conv by blast
  finally show ?thesis .
qed

lemma best_performer_Some:
  assumes "best_performer ts = Some b"
  shows "b \<in> set ts \<and> status b = ''CLOSED'' \<and> pnl b \<noteq> None"
    and "\<And>t. t \<in> set ts \<Longrightarrow> status t = ''CLOSED'' \<Longrightarrow> pnl t \<noteq> None \<Longrightarrow> the (pnl t) \<le> the (pnl b)"
    and "\<exists>pre post. ts = pre @ b # post \<and>
           (\<forall>t\<in>set pre. status t = ''CLOSED'' \<longrightarrow> pnl t \<noteq> None \<longrightarrow> the (pnl t) < the (pnl b))"
proof -
  obtain c cs where cs: "filter (\<lambda>t. pnl t \<noteq> None) (closed_trades ts) = c # cs" and b: "b = py_max_loop (\<lambda>t. the (pnl t)) c cs"
    using assms unfolding best_performer_def py_max_def
    by (cases "filter (\<lambda>t. pnl t \<noteq> None) (closed_trades ts)") simp_all
  have mem: "b \<in> set (filter (\<lambda>t. pnl t \<noteq> None) (closed_trades ts))"
    unfolding cs b by (rule py_max_loop_mem)
  then show "b \<in> set ts \<and> status b = ''CLOSED'' \<and> pnl b \<noteq> None"
    unfolding closed_non_null_filter by simp
  show "the (pnl t) \<le> the (pnl b)" if "t \<in> set ts" "status t = ''CLOSED''" "pnl t \<noteq> None" for t
  proof -
    have "t \<in> set (c # cs)" using that unfolding cs[symmetric] closed_non_null_filter by simp
    then show ?thesis unfolding b by (rule py_max_loop_ge)
  qed
  obtain pre' post' where pp: "c # cs = pre' @ b # post'"
      "\<forall>x\<in>set pre'. the (pnl x) < the (pnl b)"
    using py_max_loop_first[of c cs "\<lambda>t. the (pnl t)"] unfolding b by blast
  have "filter (\<lambda>t. status t = ''CLOSED'' \<and> pnl t \<noteq> None) ts = pre' @ b # post'"
    using pp(1) cs closed_non_null_filter by simp
  then obtain pre post where ts: "ts = pre @ b # post"
      "filter (\<lambda>t. status t = ''CLOSED'' \<and> pnl t \<noteq> None) pre = pre'"
    using filter_eq_appendD[of "\<lambda>t. status t = ''CLOSED'' \<and> pnl t \<noteq> None" ts pre' b post'] by blast
  have "\<forall>t\<in>set pre. status t = ''CLOSED'' \<longrightarrow> pnl t \<noteq> None \<longrightarrow> the (pnl t) < the (pnl b)"
  proof (intro ballI impI)
    fix t assume "t \<in> set pre" "status t = ''CLOSED''" "pnl t \<noteq> None"
    then have "t \<in> set pre'" unfolding ts(2)[symmetric] by simp
    then show "the (pnl t) < the (pnl b)" using pp(2) by blast
  qed
  then show "\<exists>pre post. ts = pre @ b # post \<and>
           (\<forall>t\<in>set pre. status t = ''CLOSED'' \<longrightarrow> pnl t \<noteq> None \<longrightarrow> the (pnl t) < the (pnl b))"
    using ts(1) by blast
qed

subsection \<open>The portfolio lookup\<close>

lemma net_worth_find:
  "net_worth u d =
     (case find (\<lambda>p. portfolio_user_id p = uid u) (portfolio_rows d) of
        None \<Rightarrow> 0 | Some p \<Rightarrow> current_balance p)"
  by (cases "find (\<lambda>p. portfolio_user_id p = uid u) (portfolio_rows d)")
     (simp_all add: net_worth_def get_portfolio_def hasattr_portfolio_def user_portfolio_def)

lemma find_unique:
  "p \<in> set ps \<Longrightarrow> P p \<Longrightarrow> (\<forall>q\<in>set ps. P q \<longrightarrow> q = p) \<Longrightarrow> find P ps = Some p"
proof (induction ps)
  case Nil
  then show ?case by simp
next
  case (Cons a ps)
  show ?case
  proof (cases "P a")
    case True
    then have "a = p" using Cons.prems(3) by simp
    then show ?thesis using True by simp
  next
    case False
    then have "p \<in> set ps" using Cons.prems(1,2) by auto
    moreover have "\<forall>q\<in>set ps. P q \<longrightarrow> q = p" using Cons.prems(3) by simp
    ultimately have "find P ps = Some p" using Cons.IH Cons.prems(2) by blast
    then show ?thesis using False by simp
  qed
qed

subsection \<open>Permutations of the trades\<close>

lemma spec_total_pnl_sum_list:
  "spec_total_pnl ts = (\<Sum>t\<leftarrow>ts. case pnl t of None \<Rightarrow> 0 | Some p \<Rightarrow> p)"
  by (induction ts) (simp_all split: option.splits)

lemma sum_list_map_mset:
  fixes f :: "'a \<Rightarrow> rat"
  assumes "mset xs = mset ys"
  shows "(\<Sum>x\<leftarrow>xs. f x) = (\<Sum>x\<leftarrow>ys. f x)"
proof -
  have "mset (map f xs) = mset (map f ys)" using assms by simp
  then show ?thesis by (metis sum_mset_sum_list)
qed

lemma total_pnl_mset: "mset ts = mset ts' \<Longrightarrow> total_pnl ts = total_pnl ts'"
  unfolding total_pnl_spec spec_total_pnl_sum_list by (rule sum_list_map_mset)

lemma length_filter_mset:
  "mset ts = mset ts' \<Longrightarrow> length (filter P ts) = length (filter P ts')"
proof -
  assume "mset ts = mset ts'"
  then have "mset (filter P ts) = mset (filter P ts')" by simp
  then show ?thesis by (rule mset_eq_length)
qed

lemma closed_trades_length_mset:
  "mset ts = mset ts' \<Longrightarrow> length (closed_trades ts) = length (closed_trades ts')"
  unfolding closed_trades_def by (rule length_filter_mset)

lemma winning_trades_length_mset:
  "mset ts = mset ts' \<Longrightarrow> length (winning_trades ts) = length (winning_trades ts')"
  unfolding winning_trades_char by (rule length_filter_mset)

lemma win_rate_lengths:
  "win_rate ts =
     (if length (closed_trades ts) = 0 then 0
      else float_mul (int_truediv (length (winning_trades ts)) (length (closed_trades ts))) 100)"
  by (simp add: win_rate_def)

lemma float_half_percent: "float_mul (int_truediv 1 2) 100 = 50"
  by code_simp

lemma win_rate_mset: "mset ts = mset ts' \<Longrightarrow> win_rate ts = win_rate ts'"
  unfolding win_rate_lengths
  by (simp only: closed_trades_length_mset[of ts ts'] winning_trades_length_mset[of ts ts'])

section \<open>The specified behaviour of the view\<close>

text \<open>
  C1. The sort resolution of \<^verbatim>\<open>trade_list\<close>: for every request the view renders the
  trades of the user, ordered by \<^verbatim>\<open>symbol\<close> when \<^verbatim>\<open>sort_by\<close> is \<^verbatim>\<open>symbol\<close>, by
  \<^verbatim>\<open>status\<close> when it is \<^verbatim>\<open>status\<close>, ascending when \<^verbatim>\<open>order\<close> is \<^verbatim>\<open>asc\<close> and
  descending for any other \<^verbatim>\<open>order\<close>; for every other \<^verbatim>\<open>sort_by\<close>, the default
  included, by \<^verbatim>\<open>entry_date\<close> descending, and the list then does not depend on
  \<^verbatim>\<open>order\<close>.
\<close>

theorem trade_list_sort_resolution:
  "\<exists>ctx. trade_list request d = (Inr (Rendered ''journal/trade_list.html'' ctx), d) \<and>
     mset (ctx_trades ctx) = mset (objects_filter (req_user request) d) \<and>
     (if GET_get request ''sort_by'' ''entry_date'' = ''symbol''
      then (if GET_get request ''order'' ''desc'' = ''asc''
            then sorted (map symbol (ctx_trades ctx))
            else sorted (rev (map symbol (ctx_trades ctx))))
      else if GET_get request ''sort_by'' ''entry_date'' = ''status''
      then (if GET_get request ''order'' ''desc'' = ''asc''
            then sorted (map status (ctx_trades ctx))
            else sorted (rev (map status (ctx_trades ctx))))
      else sorted (rev (map entry_date (ctx_trades ctx))) \<and>
           ctx_trades ctx = rev (sort_key entry_date (objects_filter (req_user request) d)))"
  unfolding trade_list_eq Let_def
  by (rule exI, rule conjI, rule refl)
     (simp add: mset_spec_sort_resolution, simp add: spec_sort_resolution_def rev_map)

theorem trade_list_sort_resolution_witness:
  "\<exists>ctx. trade_list
      \<lparr>req_user = \<lparr>uid = 1\<rparr>, GET = [''sort_by'' \<mapsto> ''symbol'', ''order'' \<mapsto> ''asc'']\<rparr>
      \<lparr>trade_rows =
         [\<lparr>pk = 1, user_id = 1, symbol = ''MSFT'', entry_date = 3, status = ''CLOSED'',
            entry_price = 10, quantity = 2, pnl = Some 100\<rparr>,
          \<lparr>pk = 2, user_id = 2, symbol = ''IBM'', entry_date = 9, status = ''OPEN'',
            entry_price = 1, quantity = 1, pnl = None\<rparr>,
          \<lparr>pk = 3, user_id = 1, symbol = ''AAPL'', entry_date = 5, status = ''OPEN'',
            entry_price = 20, quantity = 1, pnl = None\<rparr>],
        strategy_rows = [], image_rows = [],
        portfolio_rows = []\<rparr>
     = (Inr (Rendered ''journal/trade_list.html'' ctx),
        \<lparr>trade_rows =
         [\<lparr>pk = 1, user_id = 1, symbol = ''MSFT'', entry_date = 3, status = ''CLOSED'',
            entry_price = 10, quantity = 2, pnl = Some 100\<rparr>,
          \<lparr>pk = 2, user_id = 2, symbol = ''IBM'', entry_date = 9, status = ''OPEN'',
            entry_price = 1, quantity = 1, pnl = None\<rparr>,
          \<lparr>pk = 3, user_id = 1, symbol = ''AAPL'', entry_date = 5, status = ''OPEN'',
            entry_price = 20, quantity = 1, pnl = None\<rparr>],
        strategy_rows = [], image_rows = [],
        portfolio_rows = []\<rparr>) \<and>
     map symbol (ctx_trades ctx) = [''AAPL'', ''MSFT''] \<and> sorted (map symbol (ctx_trades ctx))"
  using trade_list_sort_resolution
    [of "\<lparr>req_user = \<lparr>uid = 1\<rparr>, GET = [''sort_by'' \<mapsto> ''symbol'', ''order'' \<mapsto> ''asc'']\<rparr>"
        "\<lparr>trade_rows =
         [\<lparr>pk = 1, user_id = 1, symbol = ''MSFT'', entry_date = 3, status = ''CLOSED'',
            entry_price = 10, quantity = 2, pnl = Some 100\<rparr>,
          \<lparr>pk = 2, user_id = 2, symbol = ''IBM'', entry_date = 9, status = ''OPEN'',
            entry_price = 1, quantity = 1, pnl = None\<rparr>,
          \<lparr>pk = 3, user_id = 1, symbol = ''AAPL'', entry_date = 5, status = ''OPEN'',
            entry_price = 20, quantity = 1, pnl = None\<rparr>],
        strategy_rows = [], image_rows = [],
        portfolio_rows = []\<rparr>"]
  by (simp add: trade_list_eq spec_sort_resolution_def GET_get_def objects_filter_def Let_def)



text \<open>
  C3. For every list of trades the total profit and loss is the sum of \<^verbatim>\<open>pnl\<close> over
  the trades whose \<^verbatim>\<open>pnl\<close> is not null: it is 0 for no trades, it does not change
  when the statuses are changed in any way, and a trade with a \<^verbatim>\<open>pnl\<close> adds it
  whatever its status.
\<close>

theorem total_pnl_all_non_null:
  "total_pnl ts = spec_total_pnl ts \<and> total_pnl [] = 0 \<and>
   (\<forall>f. total_pnl (map (\<lambda>t. t\<lparr>status := f t\<rparr>) ts) = total_pnl ts) \<and>
   (\<forall>t p. pnl t = Some p \<longrightarrow> total_pnl (t # ts) = p + total_pnl ts) \<and>
   (\<forall>t. pnl t = None \<longrightarrow> total_pnl (t # ts) = total_pnl ts)"
  by (simp add: total_pnl_status) (simp add: total_pnl_spec)

theorem total_pnl_all_non_null_witness:
  "total_pnl
     [\<lparr>pk = 1, user_id = 1, symbol = ''A'', entry_date = 1, status = ''OPEN'',
        entry_price = 1, quantity = 1, pnl = Some 7\<rparr>,
      \<lparr>pk = 2, user_id = 1, symbol = ''B'', entry_date = 2, status = ''CLOSED'',
        entry_price = 1, quantity = 1, pnl = Some 3\<rparr>,
      \<lparr>pk = 3, user_id = 1, symbol = ''C'', entry_date = 3, status = ''CLOSED'',
        entry_price = 1, quantity = 1, pnl = None\<rparr>] = 10"
  using total_pnl_all_non_null
     [of "[\<lparr>pk = 1, user_id = 1, symbol = ''A'', entry_date = 1, status = ''OPEN'',
        entry_price = 1, quantity = 1, pnl = Some 7\<rparr>,
      \<lparr>pk = 2, user_id = 1, symbol = ''B'', entry_date = 2, status = ''CLOSED'',
        entry_price = 1, quantity = 1, pnl = Some 3\<rparr>,
      \<lparr>pk = 3, user_id = 1, symbol = ''C'', entry_date = 3, status = ''CLOSED'',
        entry_price = 1, quantity = 1, pnl = None\<rparr>]"]
  by simp

text \<open>
  C4. The best performer is absent exactly when no \<^verbatim>\<open>CLOSED\<close> trade has a
  \<^verbatim>\<open>pnl\<close>; when present it is a \<^verbatim>\<open>CLOSED\<close> trade of the list with a \<^verbatim>\<open>pnl\<close>,
  no \<^verbatim>\<open>CLOSED\<close> trade has a greater \<^verbatim>\<open>pnl\<close>, and every such trade before it in
  the list has a strictly smaller one: it is the first maximum in the order of the
  list.
\<close>

theorem best_performer_first_maximum:
  "(best_performer ts = None \<longleftrightarrow>
      \<not> (\<exists>t\<in>set ts. status t = ''CLOSED'' \<and> pnl t \<noteq> None)) \<and>
   (\<forall>b. best_performer ts = Some b \<longrightarrow>
      b \<in> set ts \<and> status b = ''CLOSED'' \<and> pnl b \<noteq> None \<and>
      (\<forall>t\<in>set ts. status t = ''CLOSED'' \<longrightarrow> pnl t \<noteq> None \<longrightarrow>
         the (pnl t) \<le> the (pnl b)) \<and>
      (\<exists>pre post. ts = pre @ b # post \<and>
         (\<forall>t\<in>set pre. status t = ''CLOSED'' \<longrightarrow> pnl t \<noteq> None \<longrightarrow>
            the (pnl t) < the (pnl b))))"
proof (intro conjI allI impI)
  show "best_performer ts = None \<longleftrightarrow>
      \<not> (\<exists>t\<in>set ts. status t = ''CLOSED'' \<and> pnl t \<noteq> None)"
    by (rule best_performer_None)
next
  fix b assume b: "best_performer ts = Some b"
  show "b \<in> set ts" "status b = ''CLOSED''" "pnl b \<noteq> None"
    using best_performer_Some(1)[OF b] by simp_all
  show "\<forall>t\<in>set ts. status t = ''CLOSED'' \<longrightarrow> pnl t \<noteq> None \<longrightarrow>
         the (pnl t) \<le> the (pnl b)"
    using best_performer_Some(2)[OF b] by blast
  show "\<exists>pre post. ts = pre @ b # post \<and>
         (\<forall>t\<in>set pre. status t = ''CLOSED'' \<longrightarrow> pnl t \<noteq> None \<longrightarrow>
            the (pnl t) < the (pnl b))"
    by (rule best_performer_Some(3)[OF b])
qed

theorem best_performer_first_maximum_witness:
  "best_performer
     [\<lparr>pk = 1, user_id = 1, symbol = ''A'', entry_date = 1, status = ''OPEN'',
        entry_price = 1, quantity = 1, pnl = Some 900\<rparr>,
      \<lparr>pk = 2, user_id = 1, symbol = ''B'', entry_date = 2, status = ''CLOSED'',
        entry_price = 1, quantity = 1, pnl = Some 50\<rparr>,
      \<lparr>pk = 3, user_id = 1, symbol = ''C'', entry_date = 3, status = ''CLOSED'',
        entry_price = 1, quantity = 1, pnl = Some 50\<rparr>,
      \<lparr>pk = 4, user_id = 1, symbol = ''D'', entry_date = 4, status = ''CLOSED'',
        entry_price = 1, quantity = 1, pnl = None\<rparr>]
   = Some \<lparr>pk = 2, user_id = 1, symbol = ''B'', entry_date = 2, status = ''CLOSED'',
        entry_price = 1, quantity = 1, pnl = Some 50\<rparr> \<and>
   best_performer
     [\<lparr>pk = 1, user_id = 1, symbol = ''A'', entry_date = 1, status = ''OPEN'',
        entry_price = 1, quantity = 1, pnl = Some 900\<rparr>] = None"
proof -
  let ?a = "\<lparr>pk = 1, user_id = 1, symbol = ''A'', entry_date = 1, status = ''OPEN'',
        entry_price = 1, quantity = 1, pnl = Some (900::rat)\<rparr>"
  let ?b = "\<lparr>pk = 2, user_id = 1, symbol = ''B'', entry_date = 2, status = ''CLOSED'',
        entry_price = 1, quantity = 1, pnl = Some (50::rat)\<rparr>"
  let ?c = "\<lparr>pk = 3, user_id = 1, symbol = ''C'', entry_date = 3, status = ''CLOSED'',
        entry_price = 1, quantity = 1, pnl = Some (50::rat)\<rparr>"
  let ?d = "\<lparr>pk = 4, user_id = 1, symbol = ''D'', entry_date = 4, status = ''CLOSED'',
        entry_price = 1, quantity = 1, pnl = (None::rat option)\<rparr>"
  have none: "best_performer [?a] = None"
    using best_performer_first_maximum[of "[?a]"] by simp
  have "best_performer [?a, ?b, ?c, ?d] \<noteq> None"
    using best_performer_first_maximum[of "[?a, ?b, ?c, ?d]"] by simp
  then obtain x where x: "best_performer [?a, ?b, ?c, ?d] = Some x" by blast
  then have mem: "x \<in> set [?a, ?b, ?c, ?d]" and st: "status x = ''CLOSED''"
      and pn: "pnl x \<noteq> None"
      and first: "\<exists>pre post. [?a, ?b, ?c, ?d] = pre @ x # post \<and>
         (\<forall>t\<in>set pre. status t = ''CLOSED'' \<longrightarrow> pnl t \<noteq> None \<longrightarrow>
            the (pnl t) < the (pnl x))"
    using best_performer_first_maximum[of "[?a, ?b, ?c, ?d]"] by blast+
  have "x \<noteq> ?a" using st by auto
  moreover have "x \<noteq> ?d" using pn by auto
  moreover have "x \<noteq> ?c"
  proof
    assume xc: "x = ?c"
    obtain pre post where pp: "[?a, ?b, ?c, ?d] = pre @ x # post"
      "\<forall>t\<in>set pre. status t = ''CLOSED'' \<longrightarrow> pnl t \<noteq> None \<longrightarrow> the (pnl t) < the (pnl x)"
      using first by blast
    have "pre = [?a, ?b]"
      using pp(1) unfolding xc by (simp add: append_eq_Cons_conv Cons_eq_append_conv)
    then show False using pp(2) xc by simp
  qed
  ultimately have "x = ?b" using mem by auto
  then show ?thesis using x none by simp
qed

text \<open>
  C5. The total investment is the sum of \<^verbatim>\<open>entry_price\<close> times \<^verbatim>\<open>quantity\<close>
  over all trades, it is the same for every permutation of the list, and two requests of
  the same user, whatever their \<^verbatim>\<open>sort_by\<close> and \<^verbatim>\<open>order\<close>, are shown the same
  total investment.
\<close>

theorem total_investment_permutation_invariant:
  "total_investment ts = (\<Sum>t\<leftarrow>ts. entry_price t * quantity t) \<and>
   (\<forall>ts'. mset ts' = mset ts \<longrightarrow> total_investment ts' = total_investment ts) \<and>
   (\<forall>request request' d. req_user request' = req_user request \<longrightarrow>
      (\<exists>ctx ctx'.
         trade_list request d = (Inr (Rendered ''journal/trade_list.html'' ctx), d) \<and>
         trade_list request' d = (Inr (Rendered ''journal/trade_list.html'' ctx'), d) \<and>
         ctx_total_investment ctx = total_investment (objects_filter (req_user request) d) \<and>
         ctx_total_investment ctx' = ctx_total_investment ctx))"
proof (intro conjI allI impI)
  show "total_investment ts = (\<Sum>t\<leftarrow>ts. entry_price t * quantity t)"
    by (rule total_investment_sum_list)
next
  fix ts' assume "mset ts' = mset ts"
  then show "total_investment ts' = total_investment ts"
    by (rule total_investment_mset)
next
  fix request request' :: request and d
  assume u: "req_user request' = req_user request"
  have inv: "total_investment (spec_sort_resolution a b xs) = total_investment xs" for a b xs
    by (rule total_investment_mset) (rule mset_spec_sort_resolution)
  show "\<exists>ctx ctx'.
         trade_list request d = (Inr (Rendered ''journal/trade_list.html'' ctx), d) \<and>
         trade_list request' d = (Inr (Rendered ''journal/trade_list.html'' ctx'), d) \<and>
         ctx_total_investment ctx = total_investment (objects_filter (req_user request) d) \<and>
         ctx_total_investment ctx' = ctx_total_investment ctx"
    unfolding trade_list_eq Let_def
    by (intro exI conjI, rule refl, rule refl) (simp_all add: inv u)
qed

theorem total_investment_permutation_invariant_witness:
  "total_investment
     [\<lparr>pk = 1, user_id = 1, symbol = ''A'', entry_date = 1, status = ''OPEN'',
        entry_price = 10, quantity = 2, pnl = None\<rparr>,
      \<lparr>pk = 2, user_id = 1, symbol = ''B'', entry_date = 2, status = ''CLOSED'',
        entry_price = 3, quantity = 5, pnl = Some 50\<rparr>] = 35 \<and>
   total_investment
     [\<lparr>pk = 2, user_id = 1, symbol = ''B'', entry_date = 2, status = ''CLOSED'',
        entry_price = 3, quantity = 5, pnl = Some 50\<rparr>,
      \<lparr>pk = 1, user_id = 1, symbol = ''A'', entry_date = 1, status = ''OPEN'',
        entry_price = 10, quantity = 2, pnl = None\<rparr>] = 35"
proof -
  let ?a = "\<lparr>pk = 1, user_id = 1, symbol = ''A'', entry_date = 1, status = ''OPEN'',
        entry_price = 10, quantity = 2, pnl = None\<rparr>"
  let ?b = "\<lparr>pk = 2, user_id = 1, symbol = ''B'', entry_date = 2, status = ''CLOSED'',
        entry_price = 3, quantity = 5, pnl = Some 50\<rparr>"
  have sum: "total_investment [?a, ?b] = 35"
    using total_investment_permutation_invariant[of "[?a, ?b]"] by simp
  have "mset [?b, ?a] = mset [?a, ?b]" by simp
  then have "total_investment [?b, ?a] = total_investment [?a, ?b]"
    using total_investment_permutation_invariant[of "[?a, ?b]"] by blast
  then show ?thesis using sum by simp
qed

text \<open>
  C6. The net worth that the view shows is the \<^verbatim>\<open>current_balance\<close> of the
  portfolio of the user when there is one, and 0 when the user has no portfolio.
\<close>

theorem net_worth_portfolio_balance_or_zero:
  "\<exists>ctx. trade_list request d = (Inr (Rendered ''journal/trade_list.html'' ctx), d) \<and>
     ctx_net_worth ctx =
       (case find (\<lambda>p. portfolio_user_id p = uid (req_user request)) (portfolio_rows d) of
          None \<Rightarrow> 0 | Some p \<Rightarrow> current_balance p) \<and>
     ((\<forall>p\<in>set (portfolio_rows d). portfolio_user_id p \<noteq> uid (req_user request)) \<longrightarrow>
        ctx_net_worth ctx = 0) \<and>
     (\<forall>p. p \<in> set (portfolio_rows d) \<and> portfolio_user_id p = uid (req_user request) \<and>
          (\<forall>q\<in>set (portfolio_rows d).
             portfolio_user_id q = uid (req_user request) \<longrightarrow> q = p) \<longrightarrow>
        ctx_net_worth ctx = current_balance p)"
proof -
  let ?P = "\<lambda>p. portfolio_user_id p = uid (req_user request)"
  have none: "net_worth (req_user request) d = 0"
    if "\<forall>p\<in>set (portfolio_rows d). portfolio_user_id p \<noteq> uid (req_user request)"
  proof -
    have "find ?P (portfolio_rows d) = None" using that by (simp add: find_None_iff)
    then show ?thesis by (simp add: net_worth_find)
  qed
  have some: "net_worth (req_user request) d = current_balance p"
    if "p \<in> set (portfolio_rows d) \<and> ?P p \<and> (\<forall>q\<in>set (portfolio_rows d). ?P q \<longrightarrow> q = p)" for p
  proof -
    have "find ?P (portfolio_rows d) = Some p"
      using that by (intro find_unique) (rule conjunct1, assumption, simp, simp)
    then show ?thesis by (simp add: net_worth_find)
  qed
  show ?thesis
    unfolding trade_list_eq Let_def
    apply (rule exI, rule conjI, rule refl)
    apply (simp only: template_context.simps)
    apply (intro conjI allI impI)
      apply (rule net_worth_find)
     apply (erule none)
    apply (erule some)
    done
qed

theorem net_worth_portfolio_balance_or_zero_witness:
  "(\<exists>ctx. trade_list \<lparr>req_user = \<lparr>uid = 1\<rparr>, GET = Map.empty\<rparr>
        \<lparr>trade_rows = [],
         strategy_rows = [], image_rows = [],
         portfolio_rows = [\<lparr>portfolio_user_id = 2, current_balance = 70\<rparr>,
                           \<lparr>portfolio_user_id = 1, current_balance = 2500\<rparr>]\<rparr>
      = (Inr (Rendered ''journal/trade_list.html'' ctx),
         \<lparr>trade_rows = [],
          strategy_rows = [], image_rows = [],
          portfolio_rows = [\<lparr>portfolio_user_id = 2, current_balance = 70\<rparr>,
                            \<lparr>portfolio_user_id = 1, current_balance = 2500\<rparr>]\<rparr>) \<and>
      ctx_net_worth ctx = 2500) \<and>
   (\<exists>ctx. trade_list \<lparr>req_user = \<lparr>uid = 3\<rparr>, GET = Map.empty\<rparr>
        \<lparr>trade_rows = [],
         strategy_rows = [], image_rows = [],
         portfolio_rows = [\<lparr>portfolio_user_id = 2, current_balance = 70\<rparr>,
                           \<lparr>portfolio_user_id = 1, current_balance = 2500\<rparr>]\<rparr>
      = (Inr (Rendered ''journal/trade_list.html'' ctx),
         \<lparr>trade_rows = [],
          strategy_rows = [], image_rows = [],
          portfolio_rows = [\<lparr>portfolio_user_id = 2, current_balance = 70\<rparr>,
                            \<lparr>portfolio_user_id = 1, current_balance = 2500\<rparr>]\<rparr>) \<and>
      ctx_net_worth ctx = 0)"
  using net_worth_portfolio_balance_or_zero
      [of "\<lparr>req_user = \<lparr>uid = 1\<rparr>, GET = Map.empty\<rparr>"
          "\<lparr>trade_rows = [],
         strategy_rows = [], image_rows = [],
         portfolio_rows = [\<lparr>portfolio_user_id = 2, current_balance = 70\<rparr>,
                           \<lparr>portfolio_user_id = 1, current_balance = 2500\<rparr>]\<rparr>"]
    net_worth_portfolio_balance_or_zero
      [of "\<lparr>req_user = \<lparr>uid = 3\<rparr>, GET = Map.empty\<rparr>"
          "\<lparr>trade_rows = [],
         strategy_rows = [], image_rows = [],
         portfolio_rows = [\<lparr>portfolio_user_id = 2, current_balance = 70\<rparr>,
                           \<lparr>portfolio_user_id = 1, current_balance = 2500\<rparr>]\<rparr>"]
  by simp blast

text \<open>
  C8. The view is read-only: the persisted state after the view is the persisted state
  before it, for every request and every state.
\<close>

theorem trade_list_read_only:
  "snd (trade_list request d) = d"
  by (simp add: trade_list_eq Let_def)

theorem trade_list_read_only_witness:
  "snd (trade_list
      \<lparr>req_user = \<lparr>uid = 1\<rparr>, GET = [''sort_by'' \<mapsto> ''status'']\<rparr>
      \<lparr>trade_rows =
         [\<lparr>pk = 1, user_id = 1, symbol = ''MSFT'', entry_date = 3, status = ''CLOSED'',
            entry_price = 10, quantity = 2, pnl = Some 100\<rparr>],
        strategy_rows = [\<lparr>strategy_user_id = 1, strategy_name = ''swing''\<rparr>],
        image_rows = [\<lparr>image_trade_pk = 1, caption = ''entry'', created_at = 7\<rparr>],
        portfolio_rows = [\<lparr>portfolio_user_id = 1, current_balance = 2500\<rparr>]\<rparr>)
   = \<lparr>trade_rows =
         [\<lparr>pk = 1, user_id = 1, symbol = ''MSFT'', entry_date = 3, status = ''CLOSED'',
            entry_price = 10, quantity = 2, pnl = Some 100\<rparr>],
        strategy_rows = [\<lparr>strategy_user_id = 1, strategy_name = ''swing''\<rparr>],
        image_rows = [\<lparr>image_trade_pk = 1, caption = ''entry'', created_at = 7\<rparr>],
        portfolio_rows = [\<lparr>portfolio_user_id = 1, current_balance = 2500\<rparr>]\<rparr>"
  by (rule trade_list_read_only)

text \<open>
  C10. \<^verbatim>\<open>current_sort\<close> and \<^verbatim>\<open>current_order\<close> are the raw parameters of the
  request, or their defaults \<^verbatim>\<open>entry_date\<close> and \<^verbatim>\<open>desc\<close>; for a \<^verbatim>\<open>sort_by\<close>
  that is neither \<^verbatim>\<open>symbol\<close> nor \<^verbatim>\<open>status\<close> they are echoed all the same, while
  the trades are ordered by \<^verbatim>\<open>entry_date\<close> descending.
\<close>

theorem trade_list_echoes_raw_parameters:
  "\<exists>ctx. trade_list request d = (Inr (Rendered ''journal/trade_list.html'' ctx), d) \<and>
     ctx_current_sort ctx =
       (case GET request ''sort_by'' of None \<Rightarrow> ''entry_date'' | Some v \<Rightarrow> v) \<and>
     ctx_current_order ctx =
       (case GET request ''order'' of None \<Rightarrow> ''desc'' | Some v \<Rightarrow> v) \<and>
     (ctx_current_sort ctx \<noteq> ''symbol'' \<and> ctx_current_sort ctx \<noteq> ''status'' \<longrightarrow>
        ctx_trades ctx = rev (sort_key entry_date (objects_filter (req_user request) d)) \<and>
        sorted (rev (map entry_date (ctx_trades ctx))))"
  unfolding trade_list_eq Let_def
  by (rule exI, rule conjI, rule refl)
     (simp add: GET_get_def spec_sort_resolution_def rev_map)

theorem trade_list_echoes_raw_parameters_witness:
  "\<exists>ctx. trade_list
      \<lparr>req_user = \<lparr>uid = 1\<rparr>, GET = [''sort_by'' \<mapsto> ''unknown'', ''order'' \<mapsto> ''asc'']\<rparr>
      \<lparr>trade_rows =
         [\<lparr>pk = 1, user_id = 1, symbol = ''MSFT'', entry_date = 3, status = ''CLOSED'',
            entry_price = 10, quantity = 2, pnl = Some 100\<rparr>,
          \<lparr>pk = 3, user_id = 1, symbol = ''AAPL'', entry_date = 5, status = ''OPEN'',
            entry_price = 20, quantity = 1, pnl = None\<rparr>],
        strategy_rows = [], image_rows = [],
        portfolio_rows = []\<rparr>
     = (Inr (Rendered ''journal/trade_list.html'' ctx),
        \<lparr>trade_rows =
         [\<lparr>pk = 1, user_id = 1, symbol = ''MSFT'', entry_date = 3, status = ''CLOSED'',
            entry_price = 10, quantity = 2, pnl = Some 100\<rparr>,
          \<lparr>pk = 3, user_id = 1, symbol = ''AAPL'', entry_date = 5, status = ''OPEN'',
            entry_price = 20, quantity = 1, pnl = None\<rparr>],
        strategy_rows = [], image_rows = [],
        portfolio_rows = []\<rparr>) \<and>
     ctx_current_sort ctx = ''unknown'' \<and> ctx_current_order ctx = ''asc'' \<and>
     map entry_date (ctx_trades ctx) = [5, 3]"
  using trade_list_echoes_raw_parameters
    [of "\<lparr>req_user = \<lparr>uid = 1\<rparr>, GET = [''sort_by'' \<mapsto> ''unknown'', ''order'' \<mapsto> ''asc'']\<rparr>"
        "\<lparr>trade_rows =
         [\<lparr>pk = 1, user_id = 1, symbol = ''MSFT'', entry_date = 3, status = ''CLOSED'',
            entry_price = 10, quantity = 2, pnl = Some 100\<rparr>,
          \<lparr>pk = 3, user_id = 1, symbol = ''AAPL'', entry_date = 5, status = ''OPEN'',
            entry_price = 20, quantity = 1, pnl = None\<rparr>],
        strategy_rows = [], image_rows = [],
        portfolio_rows = []\<rparr>"]
  by (simp add: trade_list_eq spec_sort_resolution_def GET_get_def objects_filter_def Let_def)

text \<open>
  C7. For three trades, one \<^verbatim>\<open>CLOSED\<close> with \<^verbatim>\<open>pnl\<close> 100, one \<^verbatim>\<open>CLOSED\<close> with
  \<^verbatim>\<open>pnl\<close> -20 and one \<^verbatim>\<open>OPEN\<close> without \<^verbatim>\<open>pnl\<close>, in whatever order the sort
  leaves them, the total profit and loss is 80, two trades are closed, one is winning, the
  win rate is 50 and the best performer is the trade with \<^verbatim>\<open>pnl\<close> 100; for no trades
  the total profit and loss, the total investment and the win rate are 0 and there is no
  best performer.
\<close>

theorem scenario_three_trades_and_no_trades:
  assumes t1: "status t1 = ''CLOSED''" "pnl t1 = Some 100"
      and t2: "status t2 = ''CLOSED''" "pnl t2 = Some (- 20)"
      and t3: "status t3 = ''OPEN''" "pnl t3 = None"
      and ts: "mset ts = {#t1, t2, t3#}"
  shows "total_pnl ts = 80 \<and> length (closed_trades ts) = 2 \<and>
         length (winning_trades ts) = 1 \<and> win_rate ts = 50 \<and>
         best_performer ts = Some t1 \<and>
         total_pnl [] = 0 \<and> total_investment [] = 0 \<and> win_rate [] = 0 \<and>
         best_performer [] = None"
proof -
  have m: "mset ts = mset [t1, t2, t3]" using ts by simp
  have open_not_closed: "status t3 \<noteq> ''CLOSED''" using t3(1) by simp
  have "total_pnl [t1, t2, t3] = 80"
    using t1(2) t2(2) t3(2) by (simp add: total_pnl_spec)
  then have pnl: "total_pnl ts = 80"
    using total_pnl_mset[OF m] by simp
  have closed: "closed_trades [t1, t2, t3] = [t1, t2]"
    using t1(1) t2(1) open_not_closed by (simp add: closed_trades_def)
  have winning: "winning_trades [t1, t2, t3] = [t1]"
    unfolding winning_trades_def closed using t1(2) t2(2) by (simp add: is_winning_def)
  have nclosed: "length (closed_trades ts) = 2"
    unfolding closed_trades_length_mset[OF m] closed by simp
  have nwinning: "length (winning_trades ts) = 1"
    unfolding winning_trades_length_mset[OF m] winning by simp
  have rate: "win_rate ts = 50"
    unfolding win_rate_lengths nclosed nwinning using float_half_percent by simp
  have set_ts: "set ts = {t1, t2, t3}"
    using arg_cong[OF m, of set_mset] by simp
  have "best_performer ts \<noteq> None"
    unfolding best_performer_None using set_ts t1 by auto
  then obtain b where b: "best_performer ts = Some b" by blast
  have bin: "b \<in> set ts" "status b = ''CLOSED''"
    using best_performer_Some(1)[OF b] by simp_all
  have "the (pnl t1) \<le> the (pnl b)"
    by (rule best_performer_Some(2)[OF b]) (simp_all add: set_ts t1)
  then have ge: "100 \<le> the (pnl b)" using t1(2) by simp
  have "b \<noteq> t2" using ge t2(2) by auto
  moreover have "b \<noteq> t3" using bin(2) open_not_closed by auto
  ultimately have "b = t1" using bin(1) set_ts by auto
  then have best: "best_performer ts = Some t1" using b by simp
  have empty: "total_pnl [] = 0 \<and> total_investment [] = 0 \<and> win_rate [] = 0 \<and>
         best_performer [] = None"
    by (simp add: total_pnl_def total_investment_def py_sum_def win_rate_def closed_trades_def
        best_performer_def py_max_def)
  show ?thesis using pnl nclosed nwinning rate best empty by blast
qed

theorem scenario_three_trades_and_no_trades_witness:
  "total_pnl
     [\<lparr>pk = 3, user_id = 1, symbol = ''C'', entry_date = 3, status = ''OPEN'',
        entry_price = 1, quantity = 1, pnl = None\<rparr>,
      \<lparr>pk = 2, user_id = 1, symbol = ''B'', entry_date = 2, status = ''CLOSED'',
        entry_price = 1, quantity = 1, pnl = Some (- 20)\<rparr>,
      \<lparr>pk = 1, user_id = 1, symbol = ''A'', entry_date = 1, status = ''CLOSED'',
        entry_price = 1, quantity = 1, pnl = Some 100\<rparr>] = 80 \<and>
   win_rate
     [\<lparr>pk = 3, user_id = 1, symbol = ''C'', entry_date = 3, status = ''OPEN'',
        entry_price = 1, quantity = 1, pnl = None\<rparr>,
      \<lparr>pk = 2, user_id = 1, symbol = ''B'', entry_date = 2, status = ''CLOSED'',
        entry_price = 1, quantity = 1, pnl = Some (- 20)\<rparr>,
      \<lparr>pk = 1, user_id = 1, symbol = ''A'', entry_date = 1, status = ''CLOSED'',
        entry_price = 1, quantity = 1, pnl = Some 100\<rparr>] = 50 \<and>
   best_performer
     [\<lparr>pk = 3, user_id = 1, symbol = ''C'', entry_date = 3, status = ''OPEN'',
        entry_price = 1, quantity = 1, pnl = None\<rparr>,
      \<lparr>pk = 2, user_id = 1, symbol = ''B'', entry_date = 2, status = ''CLOSED'',
        entry_price = 1, quantity = 1, pnl = Some (- 20)\<rparr>,
      \<lparr>pk = 1, user_id = 1, symbol = ''A'', entry_date = 1, status = ''CLOSED'',
        entry_price = 1, quantity = 1, pnl = Some 100\<rparr>]
     = Some \<lparr>pk = 1, user_id = 1, symbol = ''A'', entry_date = 1, status = ''CLOSED'',
        entry_price = 1, quantity = 1, pnl = Some 100\<rparr>"
proof -
  let ?t1 = "\<lparr>pk = 1, user_id = 1, symbol = ''A'', entry_date = 1, status = ''CLOSED'',
        entry_price = 1, quantity = 1, pnl = Some (100::rat)\<rparr>"
  let ?t2 = "\<lparr>pk = 2, user_id = 1, symbol = ''B'', entry_date = 2, status = ''CLOSED'',
        entry_price = 1, quantity = 1, pnl = Some (- 20 :: rat)\<rparr>"
  let ?t3 = "\<lparr>pk = 3, user_id = 1, symbol = ''C'', entry_date = 3, status = ''OPEN'',
        entry_price = 1, quantity = 1, pnl = (None :: rat option)\<rparr>"
  have h1: "status ?t1 = ''CLOSED''" and h2: "pnl ?t1 = Some 100"
    and h3: "status ?t2 = ''CLOSED''" and h4: "pnl ?t2 = Some (- 20)"
    and h5: "status ?t3 = ''OPEN''" and h6: "pnl ?t3 = None"
    by simp_all
  have h7: "mset [?t3, ?t2, ?t1] = {#?t1, ?t2, ?t3#}" by simp
  show ?thesis
    using scenario_three_trades_and_no_trades[OF h1 h2 h3 h4 h5 h6 h7] by blast
qed

text \<open>
  C9. The best performer needs no positive \<^verbatim>\<open>pnl\<close>: whenever some \<^verbatim>\<open>CLOSED\<close> trade
  has a \<^verbatim>\<open>pnl\<close> there is a best performer, and when every such \<^verbatim>\<open>pnl\<close> is zero
  or negative there are no winning trades, the win rate is 0, and the best performer is a
  \<^verbatim>\<open>CLOSED\<close> trade with the largest of these \<^verbatim>\<open>pnl\<close>.
\<close>

theorem best_performer_needs_no_win:
  assumes "\<exists>t\<in>set ts. status t = ''CLOSED'' \<and> pnl t \<noteq> None"
  shows "best_performer ts \<noteq> None \<and>
         ((\<forall>t\<in>set ts. status t = ''CLOSED'' \<longrightarrow> (\<forall>p. pnl t = Some p \<longrightarrow> p \<le> 0)) \<longrightarrow>
          winning_trades ts = [] \<and> win_rate ts = 0 \<and>
          (\<exists>b p. best_performer ts = Some b \<and> b \<in> set ts \<and> status b = ''CLOSED'' \<and>
             pnl b = Some p \<and> p \<le> 0 \<and>
             (\<forall>t\<in>set ts. status t = ''CLOSED'' \<longrightarrow> (\<forall>q. pnl t = Some q \<longrightarrow> q \<le> p))))"
proof (intro conjI impI)
  show present: "best_performer ts \<noteq> None"
    unfolding best_performer_None using assms by blast
  assume loss: "\<forall>t\<in>set ts. status t = ''CLOSED'' \<longrightarrow> (\<forall>p. pnl t = Some p \<longrightarrow> p \<le> 0)"
  show nowin: "winning_trades ts = []"
    unfolding winning_trades_char filter_empty_conv using loss by fastforce
  show "win_rate ts = 0"
    by (simp add: win_rate_def nowin int_truediv_def float_mul_def float_round_zero)
  obtain b where b: "best_performer ts = Some b" using present by blast
  have bprops: "b \<in> set ts" "status b = ''CLOSED''" "pnl b \<noteq> None"
    using best_performer_Some(1)[OF b] by simp_all
  then obtain p where p: "pnl b = Some p" by blast
  have "p \<le> 0" using loss bprops(1,2) p by blast
  moreover have "\<forall>t\<in>set ts. status t = ''CLOSED'' \<longrightarrow> (\<forall>q. pnl t = Some q \<longrightarrow> q \<le> p)"
  proof (intro ballI impI allI)
    fix t q assume "t \<in> set ts" "status t = ''CLOSED''" "pnl t = Some q"
    then have "the (pnl t) \<le> the (pnl b)"
      using best_performer_Some(2)[OF b, of t] by simp
    then show "q \<le> p" using \<open>pnl t = Some q\<close> p by simp
  qed
  ultimately show "\<exists>b p. best_performer ts = Some b \<and> b \<in> set ts \<and> status b = ''CLOSED'' \<and>
             pnl b = Some p \<and> p \<le> 0 \<and>
             (\<forall>t\<in>set ts. status t = ''CLOSED'' \<longrightarrow> (\<forall>q. pnl t = Some q \<longrightarrow> q \<le> p))"
    using b bprops p by blast
qed

theorem best_performer_needs_no_win_witness:
  "best_performer
     [\<lparr>pk = 1, user_id = 1, symbol = ''A'', entry_date = 1, status = ''CLOSED'',
        entry_price = 1, quantity = 1, pnl = Some (- 20)\<rparr>,
      \<lparr>pk = 2, user_id = 1, symbol = ''B'', entry_date = 2, status = ''CLOSED'',
        entry_price = 1, quantity = 1, pnl = Some (- 5)\<rparr>,
      \<lparr>pk = 3, user_id = 1, symbol = ''C'', entry_date = 3, status = ''OPEN'',
        entry_price = 1, quantity = 1, pnl = Some 10\<rparr>]
     = Some \<lparr>pk = 2, user_id = 1, symbol = ''B'', entry_date = 2, status = ''CLOSED'',
        entry_price = 1, quantity = 1, pnl = Some (- 5)\<rparr> \<and>
   winning_trades
     [\<lparr>pk = 1, user_id = 1, symbol = ''A'', entry_date = 1, status = ''CLOSED'',
        entry_price = 1, quantity = 1, pnl = Some (- 20)\<rparr>,
      \<lparr>pk = 2, user_id = 1, symbol = ''B'', entry_date = 2, status = ''CLOSED'',
        entry_price = 1, quantity = 1, pnl = Some (- 5)\<rparr>,
      \<lparr>pk = 3, user_id = 1, symbol = ''C'', entry_date = 3, status = ''OPEN'',
        entry_price = 1, quantity = 1, pnl = Some 10\<rparr>] = [] \<and>
   win_rate
     [\<lparr>pk = 1, user_id = 1, symbol = ''A'', entry_date = 1, status = ''CLOSED'',
        entry_price = 1, quantity = 1, pnl = Some (- 20)\<rparr>,
      \<lparr>pk = 2, user_id = 1, symbol = ''B'', entry_date = 2, status = ''CLOSED'',
        entry_price = 1, quantity = 1, pnl = Some (- 5)\<rparr>,
      \<lparr>pk = 3, user_id = 1, symbol = ''C'', entry_date = 3, status = ''OPEN'',
        entry_price = 1, quantity = 1, pnl = Some 10\<rparr>] = 0"
proof -
  let ?ts = "[\<lparr>pk = 1, user_id = 1, symbol = ''A'', entry_date = 1, status = ''CLOSED'',
        entry_price = 1, quantity = 1, pnl = Some (- 20 :: rat)\<rparr>,
      \<lparr>pk = 2, user_id = 1, symbol = ''B'', entry_date = 2, status = ''CLOSED'',
        entry_price = 1, quantity = 1, pnl = Some (- 5)\<rparr>,
      \<lparr>pk = 3, user_id = 1, symbol = ''C'', entry_date = 3, status = ''OPEN'',
        entry_price = 1, quantity = 1, pnl = Some 10\<rparr>]"
  have h: "\<exists>t\<in>set ?ts. status t = ''CLOSED'' \<and> pnl t \<noteq> None" by simp
  have loss: "\<forall>t\<in>set ?ts. status t = ''CLOSED'' \<longrightarrow> (\<forall>p. pnl t = Some p \<longrightarrow> p \<le> 0)"
    by simp
  have "winning_trades ?ts = [] \<and> win_rate ?ts = 0"
    using best_performer_needs_no_win[OF h] loss by blast
  moreover have "best_performer ?ts = Some \<lparr>pk = 2, user_id = 1, symbol = ''B'', entry_date = 2,
        status = ''CLOSED'', entry_price = 1, quantity = 1, pnl = Some (- 5)\<rparr>"
    by (simp add: best_performer_def py_max_def closed_trades_def)
  ultimately show ?thesis by blast
qed


end
